theory Spec2Isabelle
  imports Main "HOL-Library.Sublist"
begin

section \<open>Data model\<close>

text \<open>
  The server keeps two Mongoose collections, Players and Applications.  A collection is
  modelled as the list of its documents in natural (insertion) order; \<open>findOne\<close> and the
  \<open>findById...\<close> calls return the first document that matches.  Document ids are
  natural numbers handed out from a counter of the store, and an id in a route is a
  well-formed one.  Amounts are whole numbers (\<open>int\<close>), time stamps are natural numbers.
  A string is the list of its code units, each below 256 (\<open>CHR 0xA0\<close> is the
  no-break space).  The database answers every call: a handler's \<open>catch\<close>
  is reached by a validation error only.
\<close>

record player =
  pid :: nat
  name :: string
  totalWin :: int
  avatar :: string
  createdAt :: nat

record application =
  aid :: nat
  app_name :: string
  email :: string
  phoneNumber :: string
  nickname :: string
  accountName :: string
  app_totalWin :: int
  proofUrl :: string
  status :: string
  app_createdAt :: nat

record store =
  players :: "player list"
  applications :: "application list"
  nextId :: nat

text \<open>A value of a JSON request body, as far as the status check can tell values apart.\<close>

datatype json = JUndefined | JNull | JBool bool | JNum int | JStr string

text \<open>
  Request bodies of the two creating endpoints, at the types the client declares for
  them (\<open>ApplicationSubmission\<close>, \<open>CreatePlayerData\<close>); every field may be absent.
\<close>

record application_body =
  b_name :: "string option"
  b_email :: "string option"
  b_phoneNumber :: "string option"
  b_nickname :: "string option"
  b_accountName :: "string option"
  b_totalWin :: "int option"
  b_proofUrl :: "string option"

record player_body =
  pb_name :: "string option"
  pb_totalWin :: "int option"

text \<open>
  What a handler gets from outside the repository: the verification of a token by the
  JWT library (\<open>None\<close> when \<open>jwt.verify\<close> throws), the database's regular-expression
  engine on patterns beyond the fragment modelled below (\<open>None\<close> when the pattern is
  refused), and the clock with the two calendar boundaries computed from it.
\<close>

record env =
  verify :: "string \<Rightarrow> string option"
  regex_engine :: "string \<Rightarrow> (string \<Rightarrow> bool) option"
  now :: nat
  startOfWeek :: nat
  startOfMonth :: nat

datatype body =
    Message string
  | ErrorMessage string string
  | PlayerList "player list"
  | ApplicationList "application list"
  | PlayerDoc player
  | ApplicationDoc application
  | NoContent

type_synonym response = "nat \<times> body"

datatype error = ValidationError string

section \<open>Collections\<close>

fun update_first :: "('a \<Rightarrow> bool) \<Rightarrow> ('a \<Rightarrow> 'a) \<Rightarrow> 'a list \<Rightarrow> 'a list" where
  "update_first P f [] = []"
| "update_first P f (x # xs) = (if P x then f x # xs else x # update_first P f xs)"

fun remove_first :: "('a \<Rightarrow> bool) \<Rightarrow> 'a list \<Rightarrow> 'a list" where
  "remove_first P [] = []"
| "remove_first P (x # xs) = (if P x then xs else x # remove_first P xs)"

text \<open>\<open>.sort({ totalWin: -1 })\<close> and \<open>.sort({ createdAt: -1 })\<close>.\<close>

definition sort_totalWin_desc :: "player list \<Rightarrow> player list" where
  "sort_totalWin_desc ps = sort_key (\<lambda>p. - totalWin p) ps"

definition sort_createdAt_desc :: "application list \<Rightarrow> application list" where
  "sort_createdAt_desc as = sort_key (\<lambda>a. - int (app_createdAt a)) as"

section \<open>Strings\<close>

text \<open>\<open>String.prototype.replace\<close> with a string pattern: the first occurrence only.\<close>

fun replace_first :: "string \<Rightarrow> string \<Rightarrow> string \<Rightarrow> string" where
  "replace_first pat rep [] = (if pat = [] then rep else [])"
| "replace_first pat rep (c # cs) =
     (if take (length pat) (c # cs) = pat then rep @ drop (length pat) (c # cs)
      else c # replace_first pat rep cs)"

text \<open>
  What \<open>String.prototype.trim\<close> strips, among the code units below 256: the white
  space characters tab, vertical tab, form feed, space and no-break space, and the line
  terminators line feed and carriage return.  (The others, such as U+FEFF, U+2028 and
  the spaces of category Zs from U+1680 on, are not code units of this string type.)
\<close>

definition whitespace :: "char \<Rightarrow> bool" where
  "whitespace c =
     (c \<in> set [CHR 0x09, CHR 0x0A, CHR 0x0B, CHR 0x0C, CHR 0x0D, CHR '' '', CHR 0xA0])"

text \<open>\<open>trim: true\<close> of the Application schema: \<open>String.prototype.trim\<close>.\<close>

definition trim :: "string \<Rightarrow> string" where
  "trim s = rev (dropWhile whitespace (rev (dropWhile whitespace s)))"

text \<open>The lower-case form of a character: letters \<open>A\<close> to \<open>Z\<close> change, nothing else does.\<close>

definition lower :: "char \<Rightarrow> char" where
  "lower c =
     (case map_of (zip ''ABCDEFGHIJKLMNOPQRSTUVWXYZ'' ''abcdefghijklmnopqrstuvwxyz'') c of
        None \<Rightarrow> c
      | Some l \<Rightarrow> l)"

section \<open>The regular expression of the search\<close>

text \<open>
  The search hands the query string to the database as a regular expression with option
  \<open>i\<close>.  The fragment modelled here: a pattern of ASCII characters in which every
  character is either a dot or no metacharacter at all.  It is searched for anywhere in the subject (the
  expression is not anchored); a dot matches any character but a newline, any other
  character matches itself up to the case of the letters \<open>A\<close> to \<open>Z\<close>.  A pattern with
  another metacharacter, or with a character beyond ASCII, goes to the engine of the
  environment.
\<close>

definition ascii :: "char \<Rightarrow> bool" where
  "ascii c = (\<not> digit7 c)"

definition metachar :: "char \<Rightarrow> bool" where
  "metachar c = (c \<in> set [CHR 0x5C, CHR ''^'', CHR ''$'', CHR ''.'', CHR ''|'', CHR ''?'',
     CHR ''*'', CHR ''+'', CHR ''('', CHR '')'', CHR ''['', CHR '']'', CHR ''{'', CHR ''}''])"

definition in_fragment :: "string \<Rightarrow> bool" where
  "in_fragment pat = list_all (\<lambda>c. ascii c \<and> (c = CHR ''.'' \<or> \<not> metachar c)) pat"

definition match_char :: "char \<Rightarrow> char \<Rightarrow> bool" where
  "match_char p c = (if p = CHR ''.'' then c \<noteq> CHR 0x0A else lower p = lower c)"

fun match_here :: "string \<Rightarrow> string \<Rightarrow> bool" where
  "match_here [] cs = True"
| "match_here (p # ps) [] = False"
| "match_here (p # ps) (c # cs) = (match_char p c \<and> match_here ps cs)"

fun match_anywhere :: "string \<Rightarrow> string \<Rightarrow> bool" where
  "match_anywhere pat [] = match_here pat []"
| "match_anywhere pat (c # cs) = (match_here pat (c # cs) \<or> match_anywhere pat cs)"

definition regex_i :: "env \<Rightarrow> string \<Rightarrow> (string \<Rightarrow> bool) option" where
  "regex_i e pat = (if in_fragment pat then Some (match_anywhere pat) else regex_engine e pat)"

section \<open>The models (\<open>models/Player.ts\<close>, \<open>models/Application.ts\<close>)\<close>

definition default_avatar :: "string \<Rightarrow> string" where
  "default_avatar n = ''https://api.dicebear.com/6.x/personas/svg?seed='' @ n"

text \<open>
  \<open>new Player({...}).save()\<close>: \<open>name\<close> and \<open>totalWin\<close> are required (a required
  string must not be empty), the avatar defaults to the one derived from the name, the
  creation time to the clock.  Nothing bounds \<open>totalWin\<close>.
\<close>

definition Player_save ::
  "nat \<Rightarrow> string option \<Rightarrow> int option \<Rightarrow> string option \<Rightarrow> store \<Rightarrow> error + (player \<times> store)" where
  "Player_save t nm tw av s =
     (case nm of
        None \<Rightarrow> Inl (ValidationError ''name'')
      | Some n \<Rightarrow>
          if n = [] then Inl (ValidationError ''name'')
          else (case tw of
              None \<Rightarrow> Inl (ValidationError ''totalWin'')
            | Some w \<Rightarrow>
                let p = \<lparr>pid = nextId s, name = n, totalWin = w,
                         avatar = (case av of None \<Rightarrow> default_avatar n | Some a \<Rightarrow> a),
                         createdAt = t\<rparr>
                in Inr (p, s\<lparr>players := players s @ [p], nextId := Suc (nextId s)\<rparr>)))"

text \<open>A required, trimmed string path of the Application schema.\<close>

definition required_trimmed :: "string \<Rightarrow> string option \<Rightarrow> error + string" where
  "required_trimmed path v =
     (case v of
        None \<Rightarrow> Inl (ValidationError path)
      | Some x \<Rightarrow> if trim x = [] then Inl (ValidationError path) else Inr (trim x))"

text \<open>\<open>totalWin: { type: Number, required: true, min: 0 }\<close>.\<close>

definition required_min0 :: "string \<Rightarrow> int option \<Rightarrow> error + int" where
  "required_min0 path v =
     (case v of
        None \<Rightarrow> Inl (ValidationError path)
      | Some w \<Rightarrow> if w < 0 then Inl (ValidationError path) else Inr w)"

definition bind_result :: "error + 'a \<Rightarrow> ('a \<Rightarrow> error + 'b) \<Rightarrow> error + 'b" where
  "bind_result r f = (case r of Inl e \<Rightarrow> Inl e | Inr x \<Rightarrow> f x)"

text \<open>
  \<open>new Application({...}).save()\<close>: the five strings and the amount are required, the
  strings are trimmed, the amount is at least 0, the proof URL defaults to the empty
  string, the status to \<open>pending\<close>.
\<close>

definition Application_save ::
  "nat \<Rightarrow> application_body \<Rightarrow> string \<Rightarrow> store \<Rightarrow> error + (application \<times> store)" where
  "Application_save t b purl s =
     bind_result (required_trimmed ''name'' (b_name b)) (\<lambda>n.
     bind_result (required_trimmed ''email'' (b_email b)) (\<lambda>e.
     bind_result (required_trimmed ''phoneNumber'' (b_phoneNumber b)) (\<lambda>ph.
     bind_result (required_trimmed ''nickname'' (b_nickname b)) (\<lambda>nk.
     bind_result (required_trimmed ''accountName'' (b_accountName b)) (\<lambda>ac.
     bind_result (required_min0 ''totalWin'' (b_totalWin b)) (\<lambda>w.
       let a = \<lparr>aid = nextId s, app_name = n, email = e, phoneNumber = ph, nickname = nk,
                accountName = ac, app_totalWin = w, proofUrl = trim purl,
                status = ''pending'', app_createdAt = t\<rparr>
       in Inr (a, s\<lparr>applications := applications s @ [a], nextId := Suc (nextId s)\<rparr>)))))))"

text \<open>\<open>Application.findByIdAndUpdate(id, { status }, { new: true })\<close>.\<close>

definition Application_findByIdAndUpdate ::
  "nat \<Rightarrow> string \<Rightarrow> store \<Rightarrow> application option \<times> store" where
  "Application_findByIdAndUpdate i st s =
     (case find (\<lambda>a. aid a = i) (applications s) of
        None \<Rightarrow> (None, s)
      | Some a \<Rightarrow>
          (Some (a\<lparr>status := st\<rparr>),
           s\<lparr>applications :=
               update_first (\<lambda>a. aid a = i) (\<lambda>a. a\<lparr>status := st\<rparr>) (applications s)\<rparr>))"

text \<open>\<open>Player.findByIdAndUpdate(id, { totalWin }, { new: true })\<close>.\<close>

definition Player_findByIdAndUpdate :: "nat \<Rightarrow> int \<Rightarrow> store \<Rightarrow> player option \<times> store" where
  "Player_findByIdAndUpdate i w s =
     (case find (\<lambda>p. pid p = i) (players s) of
        None \<Rightarrow> (None, s)
      | Some p \<Rightarrow>
          (Some (p\<lparr>totalWin := w\<rparr>),
           s\<lparr>players := update_first (\<lambda>p. pid p = i) (\<lambda>p. p\<lparr>totalWin := w\<rparr>) (players s)\<rparr>))"

text \<open>\<open>Player.findByIdAndDelete(id)\<close>.\<close>

definition Player_findByIdAndDelete :: "nat \<Rightarrow> store \<Rightarrow> player option \<times> store" where
  "Player_findByIdAndDelete i s =
     (case find (\<lambda>p. pid p = i) (players s) of
        None \<Rightarrow> (None, s)
      | Some p \<Rightarrow> (Some p, s\<lparr>players := remove_first (\<lambda>p. pid p = i) (players s)\<rparr>))"

section \<open>The access gate (\<open>middleware/auth\<close>)\<close>

definition bearer_token :: "string option \<Rightarrow> string option" where
  "bearer_token hdr = map_option (replace_first ''Bearer '' []) hdr"

definition auth ::
  "env \<Rightarrow> string option \<Rightarrow> (store \<Rightarrow> response \<times> store) \<Rightarrow> store \<Rightarrow> response \<times> store" where
  "auth e hdr next s =
     (case bearer_token hdr of
        None \<Rightarrow> ((401, Message ''Authentication required''), s)
      | Some token \<Rightarrow>
          if token = [] then ((401, Message ''Authentication required''), s)
          else (case verify e token of
              None \<Rightarrow> ((401, Message ''Authentication required''), s)
            | Some decoded \<Rightarrow> next s))"

text \<open>
  A request carries a valid bearer token when the gate lets it through: what is left of
  the Authorization header once the first \<open>Bearer \<close> is taken out is not empty and is
  verified by the JWT library.
\<close>

definition valid_bearer :: "env \<Rightarrow> string option \<Rightarrow> bool" where
  "valid_bearer e hdr =
     (case bearer_token hdr of
        None \<Rightarrow> False
      | Some token \<Rightarrow> token \<noteq> [] \<and> verify e token \<noteq> None)"

section \<open>The handlers\<close>

text \<open>JavaScript's \<open>!x\<close> on an optional string and on an optional number.\<close>

definition falsy_str :: "string option \<Rightarrow> bool" where
  "falsy_str v = (case v of None \<Rightarrow> True | Some x \<Rightarrow> x = [])"

definition falsy_num :: "int option \<Rightarrow> bool" where
  "falsy_num v = (case v of None \<Rightarrow> True | Some n \<Rightarrow> n = 0)"

text \<open>\<open>proofUrl || ''\<close>.\<close>

definition or_empty :: "string option \<Rightarrow> string" where
  "or_empty v = (case v of None \<Rightarrow> [] | Some x \<Rightarrow> x)"

text \<open>\<open>app.post('/api/applications', ...)\<close>.\<close>

definition post_applications :: "env \<Rightarrow> application_body \<Rightarrow> store \<Rightarrow> response \<times> store" where
  "post_applications e b s =
     (if falsy_str (b_name b) \<or> falsy_str (b_email b) \<or> falsy_str (b_phoneNumber b) \<or>
         falsy_str (b_nickname b) \<or> falsy_str (b_accountName b) \<or> falsy_num (b_totalWin b)
      then ((400, Message ''Required fields are missing''), s)
      else (case Application_save (now e) b (or_empty (b_proofUrl b)) s of
          Inl (ValidationError path) \<Rightarrow>
            ((400, ErrorMessage ''Error submitting application'' path), s)
        | Inr (application, s') \<Rightarrow> ((201, ApplicationDoc application), s')))"

text \<open>\<open>app.get('/api/applications', auth, ...)\<close>, without the gate.\<close>

definition get_applications :: "store \<Rightarrow> response \<times> store" where
  "get_applications s = ((200, ApplicationList (sort_createdAt_desc (applications s))), s)"

text \<open>
  \<open>app.patch('/api/applications/:id', auth, ...)\<close>, without the gate.  The status is
  written first; on \<open>approved\<close> the player of the application's nickname is looked up,
  raised to the claimed amount when that is larger, or created.  \<open>existingPlayer.save()\<close>
  writes the document found back in its place.
\<close>

definition patch_application :: "env \<Rightarrow> nat \<Rightarrow> json \<Rightarrow> store \<Rightarrow> response \<times> store" where
  "patch_application e i st s =
     (case st of
        JStr str \<Rightarrow>
          if str \<notin> set [''pending'', ''approved'', ''rejected'']
          then ((400, Message ''Invalid status''), s)
          else (case Application_findByIdAndUpdate i str s of
              (None, s1) \<Rightarrow> ((404, Message ''Application not found''), s1)
            | (Some application, s1) \<Rightarrow>
                if str = ''approved'' then
                  (case find (\<lambda>p. name p = nickname application) (players s1) of
                     Some existingPlayer \<Rightarrow>
                       if app_totalWin application > totalWin existingPlayer
                       then ((200, ApplicationDoc application),
                             s1\<lparr>players :=
                                 update_first (\<lambda>p. name p = nickname application)
                                   (\<lambda>p. p\<lparr>totalWin := app_totalWin application\<rparr>) (players s1)\<rparr>)
                       else ((200, ApplicationDoc application), s1)
                   | None \<Rightarrow>
                       (case Player_save (now e) (Some (nickname application))
                               (Some (app_totalWin application))
                               (Some (''https://api.dicebear.com/6.x/personas/svg?seed='' @
                                      nickname application)) s1 of
                          Inl err \<Rightarrow> ((400, Message ''Error updating application''), s1)
                        | Inr (player, s2) \<Rightarrow> ((200, ApplicationDoc application), s2)))
                else ((200, ApplicationDoc application), s1))
      | _ \<Rightarrow> ((400, Message ''Invalid status''), s))"

text \<open>\<open>app.post('/api/players', auth, ...)\<close>, without the gate.\<close>

definition post_players :: "env \<Rightarrow> player_body \<Rightarrow> store \<Rightarrow> response \<times> store" where
  "post_players e b s =
     (case Player_save (now e) (pb_name b) (pb_totalWin b) None s of
        Inl err \<Rightarrow> ((400, Message ''Error creating player''), s)
      | Inr (player, s') \<Rightarrow> ((201, PlayerDoc player), s'))"

text \<open>\<open>app.patch('/api/players/:id', auth, ...)\<close>, without the gate.\<close>

definition patch_player :: "nat \<Rightarrow> int \<Rightarrow> store \<Rightarrow> response \<times> store" where
  "patch_player i w s =
     (case Player_findByIdAndUpdate i w s of
        (None, s') \<Rightarrow> ((404, Message ''Player not found''), s')
      | (Some player, s') \<Rightarrow> ((200, PlayerDoc player), s'))"

text \<open>\<open>app.delete('/api/players/:id', auth, ...)\<close>, without the gate.\<close>

definition delete_player :: "nat \<Rightarrow> store \<Rightarrow> response \<times> store" where
  "delete_player i s =
     (case Player_findByIdAndDelete i s of
        (None, s') \<Rightarrow> ((404, Message ''Player not found''), s')
      | (Some player, s') \<Rightarrow> ((204, NoContent), s'))"

text \<open>The public reading routes.\<close>

definition get_players :: "store \<Rightarrow> response \<times> store" where
  "get_players s = ((200, PlayerList (sort_totalWin_desc (players s))), s)"

definition get_players_weekly :: "env \<Rightarrow> store \<Rightarrow> response \<times> store" where
  "get_players_weekly e s =
     ((200, PlayerList (sort_totalWin_desc
         (filter (\<lambda>p. startOfWeek e \<le> createdAt p) (players s)))), s)"

definition get_players_monthly :: "env \<Rightarrow> store \<Rightarrow> response \<times> store" where
  "get_players_monthly e s =
     ((200, PlayerList (sort_totalWin_desc
         (filter (\<lambda>p. startOfMonth e \<le> createdAt p) (players s)))), s)"

text \<open>
  \<open>Number(req.query.limit) || 10\<close>: the parameter is the number read from the query,
  \<open>None\<close> when there is none.  A negative limit is taken by its absolute value.
\<close>

definition get_players_top :: "int option \<Rightarrow> store \<Rightarrow> response \<times> store" where
  "get_players_top q s =
     (let limit = (case q of None \<Rightarrow> 10 | Some n \<Rightarrow> if n = 0 then 10 else n)
      in ((200, PlayerList (take (nat \<bar>limit\<bar>) (sort_totalWin_desc (players s)))), s))"

definition get_players_search :: "env \<Rightarrow> string \<Rightarrow> store \<Rightarrow> response \<times> store" where
  "get_players_search e query s =
     (case regex_i e query of
        None \<Rightarrow> ((500, Message ''Error searching players''), s)
      | Some matches \<Rightarrow>
          ((200, PlayerList (sort_totalWin_desc
              (filter (\<lambda>p. matches (name p)) (players s)))), s))"

text \<open>\<open>app.post('/api/test/create-sample-players', ...)\<close>.\<close>

definition samplePlayers :: "(string \<times> int) list" where
  "samplePlayers =
     [(''Champion123'', 50000000), (''LuckyWinner'', 35000000), (''GoldHunter'', 25000000),
      (''FortuneMaster'', 20000000), (''LuckyDragon'', 15000000)]"

fun save_each :: "nat \<Rightarrow> (string \<times> int) list \<Rightarrow> store \<Rightarrow> error option \<times> store" where
  "save_each t [] s = (None, s)"
| "save_each t ((n, w) # rest) s =
     (case Player_save t (Some n) (Some w)
             (Some (''https://api.dicebear.com/6.x/personas/svg?seed='' @ n)) s of
        Inl err \<Rightarrow> (Some err, s)
      | Inr (player, s') \<Rightarrow> save_each t rest s')"

definition create_sample_players :: "env \<Rightarrow> store \<Rightarrow> response \<times> store" where
  "create_sample_players e s =
     (case save_each (now e) samplePlayers (s\<lparr>players := []\<rparr>) of
        (Some err, s') \<Rightarrow> ((500, Message ''Error creating sample players''), s')
      | (None, s') \<Rightarrow> ((201, Message ''Sample players created''), s'))"

section \<open>The routes\<close>

datatype request =
    PostApplications application_body
  | GetApplications
  | PatchApplication nat json
  | PostPlayers player_body
  | PatchPlayer nat int
  | DeletePlayer nat
  | GetPlayers
  | GetPlayersWeekly
  | GetPlayersMonthly
  | GetPlayersTop "int option"
  | GetPlayersSearch string
  | CreateSamplePlayers

text \<open>
  The route registrations: \<open>hdr\<close> is the request's Authorization header, if any; the
  routes registered with \<open>auth\<close> run behind the gate.
\<close>

fun handle :: "env \<Rightarrow> string option \<Rightarrow> request \<Rightarrow> store \<Rightarrow> response \<times> store" where
  "handle e hdr (PostApplications b) s = post_applications e b s"
| "handle e hdr GetApplications s = auth e hdr get_applications s"
| "handle e hdr (PatchApplication i st) s = auth e hdr (patch_application e i st) s"
| "handle e hdr (PostPlayers b) s = auth e hdr (post_players e b) s"
| "handle e hdr (PatchPlayer i w) s = auth e hdr (patch_player i w) s"
| "handle e hdr (DeletePlayer i) s = auth e hdr (delete_player i) s"
| "handle e hdr GetPlayers s = get_players s"
| "handle e hdr GetPlayersWeekly s = get_players_weekly e s"
| "handle e hdr GetPlayersMonthly s = get_players_monthly e s"
| "handle e hdr (GetPlayersTop q) s = get_players_top q s"
| "handle e hdr (GetPlayersSearch query) s = get_players_search e query s"
| "handle e hdr CreateSamplePlayers s = create_sample_players e s"

section \<open>Spec-side notions\<close>

text \<open>
  The name contains the query as a literal substring, letters compared without their
  case: the reading of the search that the specification gives.
\<close>

definition contains_ci :: "string \<Rightarrow> string \<Rightarrow> bool" where
  "contains_ci q n = sublist (map lower q) (map lower n)"

text \<open>The data model's constraint on a player's total.\<close>

definition nonneg_totals :: "store \<Rightarrow> bool" where
  "nonneg_totals s = list_all (\<lambda>p. 0 \<le> totalWin p) (players s)"

text \<open>
  What the Application schema guarantees of a stored nickname (\<open>required\<close>, \<open>trim\<close>):
  it is not empty.
\<close>

definition nicknames_ok :: "store \<Rightarrow> bool" where
  "nicknames_ok s = list_all (\<lambda>a. nickname a \<noteq> []) (applications s)"

section \<open>Example states\<close>

definition e0 :: env where
  "e0 = \<lparr>verify = (\<lambda>t. if t = ''good'' then Some ''admin'' else None),
         regex_engine = (\<lambda>pat. None), now = 100, startOfWeek = 70, startOfMonth = 40\<rparr>"

definition hdr_good :: "string option" where
  "hdr_good = Some ''Bearer good''"

definition p_ace :: player where
  "p_ace = \<lparr>pid = 1, name = ''AceA'', totalWin = 500000,
            avatar = ''https://api.dicebear.com/6.x/personas/svg?seed=AceA'', createdAt = 10\<rparr>"

definition a_ace :: application where
  "a_ace = \<lparr>aid = 2, app_name = ''Alice'', email = ''a@x.com'', phoneNumber = ''555'',
            nickname = ''AceA'', accountName = ''acc1'', app_totalWin = 1000000,
            proofUrl = [], status = ''pending'', app_createdAt = 20\<rparr>"

text \<open>A pending claim of 1000000 for a player recorded with 500000.\<close>

definition s_pending :: store where
  "s_pending = \<lparr>players = [p_ace], applications = [a_ace], nextId = 3\<rparr>"

text \<open>The same store after the claim has been approved.\<close>

definition s_approved :: store where
  "s_approved = \<lparr>players = [p_ace\<lparr>totalWin := 1000000\<rparr>],
                 applications = [a_ace\<lparr>status := ''approved''\<rparr>], nextId = 3\<rparr>"

definition body_zero :: application_body where
  "body_zero = \<lparr>b_name = Some ''Alice'', b_email = Some ''a@x.com'',
                b_phoneNumber = Some ''555'', b_nickname = Some ''AceA'',
                b_accountName = Some ''acc1'', b_totalWin = Some 0, b_proofUrl = None\<rparr>"

definition p_abc :: player where
  "p_abc = \<lparr>pid = 1, name = ''abc'', totalWin = 5, avatar = [], createdAt = 10\<rparr>"

definition s_abc :: store where
  "s_abc = \<lparr>players = [p_abc], applications = [], nextId = 2\<rparr>"

text \<open>A complete submission; the nickname comes with blanks around it.\<close>

definition body_ace :: application_body where
  "body_ace = \<lparr>b_name = Some ''Alice'', b_email = Some ''a@x.com'',
                b_phoneNumber = Some ''555'', b_nickname = Some '' AceA '',
                b_accountName = Some ''acc1'', b_totalWin = Some 1000000, b_proofUrl = None\<rparr>"

section \<open>Auxiliary facts\<close>

lemma auth_valid: "valid_bearer e hdr \<Longrightarrow> auth e hdr next s = next s"
  by (auto simp: valid_bearer_def auth_def split: option.splits)

lemma auth_invalid:
  "\<not> valid_bearer e hdr \<Longrightarrow> auth e hdr next s = ((401, Message ''Authentication required''), s)"
  by (auto simp: valid_bearer_def auth_def split: option.splits)

lemma valid_bearer_good: "valid_bearer e0 hdr_good"
  by (simp add: valid_bearer_def bearer_token_def e0_def hdr_good_def)

lemma find_update_first:
  "find P xs = Some x \<Longrightarrow> P (f x) \<Longrightarrow> find P (update_first P f xs) = Some (f x)"
  by (induction xs) (auto split: if_splits)

lemma update_first_absent: "find P xs = None \<Longrightarrow> update_first P f xs = xs"
  by (induction xs) (auto split: if_splits)

lemma update_first_found_same: "find P xs = Some x \<Longrightarrow> f x = x \<Longrightarrow> update_first P f xs = xs"
  by (induction xs) (auto split: if_splits)

lemma update_first_cong_found:
  "find P xs = Some x \<Longrightarrow> f x = g x \<Longrightarrow> update_first P f xs = update_first P g xs"
  by (induction xs) (auto split: if_splits)

lemma update_first_twice:
  "(\<And>x. P x \<Longrightarrow> P (f x)) \<Longrightarrow> (\<And>x. f (f x) = f x) \<Longrightarrow>
   update_first P f (update_first P f xs) = update_first P f xs"
  by (induction xs) auto

lemma find_append_new: "find P xs = None \<Longrightarrow> P y \<Longrightarrow> find P (xs @ [y]) = Some y"
  by (induction xs) (auto split: if_splits)

lemma find_Some_mem: "find P xs = Some x \<Longrightarrow> x \<in> set xs \<and> P x"
  by (induction xs) (auto split: if_splits)

lemma update_first_mem: "find P xs = Some x \<Longrightarrow> f x \<in> set (update_first P f xs)"
  by (induction xs) (auto split: if_splits)

text \<open>The approving review of an application that is in the store, past the gate.\<close>

lemma patch_approved_found:
  assumes "find (\<lambda>a. aid a = i) (applications s) = Some a"
  shows "patch_application e i (JStr ''approved'') s =
    (let application = a\<lparr>status := ''approved''\<rparr>;
         s1 = s\<lparr>applications :=
                  update_first (\<lambda>a. aid a = i) (\<lambda>a. a\<lparr>status := ''approved''\<rparr>) (applications s)\<rparr>
     in case find (\<lambda>p. name p = nickname a) (players s) of
          Some existingPlayer \<Rightarrow>
            if app_totalWin a > totalWin existingPlayer
            then ((200, ApplicationDoc application),
                  s1\<lparr>players := update_first (\<lambda>p. name p = nickname a)
                       (\<lambda>p. p\<lparr>totalWin := app_totalWin a\<rparr>) (players s)\<rparr>)
            else ((200, ApplicationDoc application), s1)
        | None \<Rightarrow>
            if nickname a = [] then ((400, Message ''Error updating application''), s1)
            else ((200, ApplicationDoc application),
                  s1\<lparr>players := players s @
                       [\<lparr>pid = nextId s, name = nickname a, totalWin = app_totalWin a,
                         avatar = default_avatar (nickname a), createdAt = now e\<rparr>],
                     nextId := Suc (nextId s)\<rparr>))"
  using assms
  by (simp add: patch_application_def Application_findByIdAndUpdate_def Player_save_def
      default_avatar_def Let_def split: option.splits)

text \<open>A review to \<open>pending\<close> or \<open>rejected\<close> of an application that is in the store.\<close>

lemma patch_status_found:
  assumes "find (\<lambda>a. aid a = i) (applications s) = Some a"
    and "st \<in> {''pending'', ''rejected''}"
  shows "patch_application e i (JStr st) s =
    ((200, ApplicationDoc (a\<lparr>status := st\<rparr>)),
     s\<lparr>applications := update_first (\<lambda>a. aid a = i) (\<lambda>a. a\<lparr>status := st\<rparr>) (applications s)\<rparr>)"
  using assms
  by (auto simp: patch_application_def Application_findByIdAndUpdate_def)

lemma applications_after_patch:
  assumes "find (\<lambda>a. aid a = i) (applications s) = Some a"
    and "st \<in> {''pending'', ''approved'', ''rejected''}"
  shows "applications (snd (patch_application e i (JStr st) s)) =
     update_first (\<lambda>a. aid a = i) (\<lambda>a. a\<lparr>status := st\<rparr>) (applications s)"
proof (cases "st = ''approved''")
  case True
  then show ?thesis using assms(1)
    by (simp add: patch_approved_found Let_def split: option.splits)
next
  case False
  then show ?thesis using assms by (simp add: patch_status_found)
qed

lemma patch_not_found:
  assumes "find (\<lambda>a. aid a = i) (applications s) = None"
  shows "snd (patch_application e i st s) = s"
  using assms
  by (cases st) (auto simp: patch_application_def Application_findByIdAndUpdate_def)

lemma patch_invalid_status:
  assumes "st \<notin> {JStr ''pending'', JStr ''approved'', JStr ''rejected''}"
  shows "patch_application e i st s = ((400, Message ''Invalid status''), s)"
  using assms by (cases st) (auto simp: patch_application_def)

lemma update_first_as_list_update:
  "update_first P f xs = xs \<or>
   (\<exists>k<length xs. P (xs ! k) \<and> update_first P f xs = xs[k := f (xs ! k)])"
proof (induction xs)
  case Nil
  then show ?case by simp
next
  case (Cons x xs)
  show ?case
  proof (cases "P x")
    case True
    then have "0 < length (x # xs) \<and> P ((x # xs) ! 0) \<and>
        update_first P f (x # xs) = (x # xs)[0 := f ((x # xs) ! 0)]" by simp
    then show ?thesis by blast
  next
    case False
    from Cons.IH show ?thesis
    proof
      assume "update_first P f xs = xs"
      then show ?thesis using False by simp
    next
      assume "\<exists>k<length xs. P (xs ! k) \<and> update_first P f xs = xs[k := f (xs ! k)]"
      then obtain k where k: "k < length xs" "P (xs ! k)" "update_first P f xs = xs[k := f (xs ! k)]"
        by blast
      then have "Suc k < length (x # xs) \<and> P ((x # xs) ! Suc k) \<and>
          update_first P f (x # xs) = (x # xs)[Suc k := f ((x # xs) ! Suc k)]"
        using False by simp
      then show ?thesis by blast
    qed
  qed
qed

text \<open>A second approval, past the gate, leaves the store of the first.\<close>

lemma approve_twice:
  "snd (patch_application e' i (JStr ''approved'')
         (snd (patch_application e i (JStr ''approved'') s))) =
   snd (patch_application e i (JStr ''approved'') s)"
proof (cases "find (\<lambda>a. aid a = i) (applications s)")
  case None
  then show ?thesis by (simp add: patch_not_found)
next
  case (Some a)
  note app = this
  let ?upd = "\<lambda>a::application. a\<lparr>status := ''approved''\<rparr>"
  let ?as1 = "update_first (\<lambda>a. aid a = i) ?upd (applications s)"
  have idp: "aid (?upd a) = i" using find_Some_mem [OF app] by simp
  have app1: "find (\<lambda>a. aid a = i) ?as1 = Some (?upd a)"
    using find_update_first [of "\<lambda>a. aid a = i" "applications s" a ?upd] app idp by simp
  have as2: "update_first (\<lambda>a. aid a = i) ?upd ?as1 = ?as1"
    using update_first_twice [of "\<lambda>a. aid a = i" ?upd "applications s"] by simp
  show ?thesis
  proof (cases "find (\<lambda>p. name p = nickname a) (players s)")
    case None
    note nop = this
    show ?thesis
    proof (cases "nickname a = []")
      case True
      have s1: "snd (patch_application e i (JStr ''approved'') s) = s\<lparr>applications := ?as1\<rparr>"
        using nop True by (simp add: patch_approved_found [OF app] Let_def)
      have app1': "find (\<lambda>a. aid a = i) (applications (s\<lparr>applications := ?as1\<rparr>)) = Some (?upd a)"
        using app1 by simp
      show ?thesis
        unfolding s1 using nop True as2
        by (simp add: patch_approved_found [OF app1'] Let_def)
    next
      case False
      let ?p = "\<lparr>pid = nextId s, name = nickname a, totalWin = app_totalWin a,
                 avatar = default_avatar (nickname a), createdAt = now e\<rparr>"
      let ?s1 = "s\<lparr>applications := ?as1, players := players s @ [?p], nextId := Suc (nextId s)\<rparr>"
      have s1: "snd (patch_application e i (JStr ''approved'') s) = ?s1"
        using nop False by (simp add: patch_approved_found [OF app] Let_def)
      have app1': "find (\<lambda>a. aid a = i) (applications ?s1) = Some (?upd a)"
        using app1 by simp
      have fp: "find (\<lambda>p. name p = nickname a) (players s @ [?p]) = Some ?p"
        using find_append_new [of "\<lambda>p. name p = nickname a" "players s" ?p] nop by simp
      show ?thesis
        unfolding s1 using fp as2
        by (simp add: patch_approved_found [OF app1'] Let_def)
    qed
  next
    case (Some p)
    note found = this
    show ?thesis
    proof (cases "app_totalWin a > totalWin p")
      case True
      let ?ps1 = "update_first (\<lambda>p. name p = nickname a)
                    (\<lambda>p. p\<lparr>totalWin := app_totalWin a\<rparr>) (players s)"
      let ?s1 = "s\<lparr>applications := ?as1, players := ?ps1\<rparr>"
      have s1: "snd (patch_application e i (JStr ''approved'') s) = ?s1"
        using found True by (simp add: patch_approved_found [OF app] Let_def)
      have app1': "find (\<lambda>a. aid a = i) (applications ?s1) = Some (?upd a)"
        using app1 by simp
      have fp: "find (\<lambda>p. name p = nickname a) ?ps1 = Some (p\<lparr>totalWin := app_totalWin a\<rparr>)"
        using find_update_first [of "\<lambda>p. name p = nickname a" "players s" p
            "\<lambda>p. p\<lparr>totalWin := app_totalWin a\<rparr>"] found find_Some_mem [OF found]
        by simp
      show ?thesis
        unfolding s1 using fp as2
        by (simp add: patch_approved_found [OF app1'] Let_def)
    next
      case False
      let ?s1 = "s\<lparr>applications := ?as1\<rparr>"
      have s1: "snd (patch_application e i (JStr ''approved'') s) = ?s1"
        using found False by (simp add: patch_approved_found [OF app] Let_def)
      have app1': "find (\<lambda>a. aid a = i) (applications ?s1) = Some (?upd a)"
        using app1 by simp
      show ?thesis
        unfolding s1 using found False as2
        by (simp add: patch_approved_found [OF app1'] Let_def)
    qed
  qed
qed

text \<open>What a review may write, past the gate.\<close>

lemma patch_frame:
  "(applications (snd (patch_application e i st s)) = applications s \<or>
     (\<exists>k a'. k < length (applications s) \<and> aid (applications s ! k) = i \<and>
        applications (snd (patch_application e i st s)) = (applications s)[k := a'])) \<and>
   (players (snd (patch_application e i st s)) = players s \<or>
     (\<exists>a. find (\<lambda>a. aid a = i) (applications s) = Some a \<and>
        ((\<exists>k<length (players s). name (players s ! k) = nickname a \<and>
            players (snd (patch_application e i st s)) =
              (players s)[k := (players s ! k)\<lparr>totalWin := app_totalWin a\<rparr>]) \<or>
         (\<exists>p. name p = nickname a \<and>
            players (snd (patch_application e i st s)) = players s @ [p])))) \<and>
   (st \<noteq> JStr ''approved'' \<longrightarrow> players (snd (patch_application e i st s)) = players s)"
proof (cases "st \<in> {JStr ''pending'', JStr ''approved'', JStr ''rejected''}")
  case False
  then show ?thesis by (simp add: patch_invalid_status)
next
  case True
  then obtain str where st: "st = JStr str" "str \<in> {''pending'', ''approved'', ''rejected''}"
    by auto
  show ?thesis
  proof (cases "find (\<lambda>a. aid a = i) (applications s)")
    case None
    then show ?thesis by (simp add: patch_not_found)
  next
    case (Some a)
    note app = this
    have apps: "applications (snd (patch_application e i st s)) =
        update_first (\<lambda>a. aid a = i) (\<lambda>a. a\<lparr>status := str\<rparr>) (applications s)"
      unfolding st(1) using app st(2) by (rule applications_after_patch)
    have A: "applications (snd (patch_application e i st s)) = applications s \<or>
     (\<exists>k a'. k < length (applications s) \<and> aid (applications s ! k) = i \<and>
        applications (snd (patch_application e i st s)) = (applications s)[k := a'])"
      unfolding apps
      using update_first_as_list_update [of "\<lambda>a. aid a = i" "\<lambda>a. a\<lparr>status := str\<rparr>" "applications s"]
      by blast
    have C: "st \<noteq> JStr ''approved'' \<longrightarrow> players (snd (patch_application e i st s)) = players s"
      using st app by (auto simp: patch_status_found)
    have B: "players (snd (patch_application e i st s)) = players s \<or>
     (\<exists>a. find (\<lambda>a. aid a = i) (applications s) = Some a \<and>
        ((\<exists>k<length (players s). name (players s ! k) = nickname a \<and>
            players (snd (patch_application e i st s)) =
              (players s)[k := (players s ! k)\<lparr>totalWin := app_totalWin a\<rparr>]) \<or>
         (\<exists>p. name p = nickname a \<and>
            players (snd (patch_application e i st s)) = players s @ [p])))"
    proof (cases "st = JStr ''approved''")
      case False
      then show ?thesis using C by simp
    next
      case True
      show ?thesis
      proof (cases "find (\<lambda>p. name p = nickname a) (players s)")
        case None
        then show ?thesis
          unfolding True using app
          by (simp add: patch_approved_found [OF app] Let_def)
      next
        case (Some p)
        have "players (snd (patch_application e i st s)) = players s \<or>
          players (snd (patch_application e i st s)) =
            update_first (\<lambda>p. name p = nickname a)
              (\<lambda>p. p\<lparr>totalWin := app_totalWin a\<rparr>) (players s)"
          unfolding True using Some by (simp add: patch_approved_found [OF app] Let_def)
        then show ?thesis
          using app
            update_first_as_list_update [of "\<lambda>p. name p = nickname a"
              "\<lambda>p. p\<lparr>totalWin := app_totalWin a\<rparr>" "players s"]
          by auto
      qed
    qed
    show ?thesis using A B C by blast
  qed
qed

lemma trim_nonempty: "trim x \<noteq> [] \<Longrightarrow> x \<noteq> []"
  by (auto simp: trim_def)

lemma post_applications_complete:
  assumes "b_name b = Some n" "trim n \<noteq> []"
    and "b_email b = Some m" "trim m \<noteq> []"
    and "b_phoneNumber b = Some ph" "trim ph \<noteq> []"
    and "b_nickname b = Some nk" "trim nk \<noteq> []"
    and "b_accountName b = Some ac" "trim ac \<noteq> []"
    and "b_totalWin b = Some w" "0 < w"
  shows "post_applications e b s =
     ((201, ApplicationDoc
         \<lparr>aid = nextId s, app_name = trim n, email = trim m, phoneNumber = trim ph,
          nickname = trim nk, accountName = trim ac, app_totalWin = w,
          proofUrl = trim (or_empty (b_proofUrl b)), status = ''pending'',
          app_createdAt = now e\<rparr>),
      s\<lparr>applications := applications s @
          [\<lparr>aid = nextId s, app_name = trim n, email = trim m, phoneNumber = trim ph,
            nickname = trim nk, accountName = trim ac, app_totalWin = w,
            proofUrl = trim (or_empty (b_proofUrl b)), status = ''pending'',
            app_createdAt = now e\<rparr>],
         nextId := Suc (nextId s)\<rparr>)"
proof -
  have ne: "n \<noteq> []" "m \<noteq> []" "ph \<noteq> []" "nk \<noteq> []" "ac \<noteq> []"
    using assms by (auto dest: trim_nonempty)
  show ?thesis
    using assms ne
    by (simp add: post_applications_def falsy_str_def falsy_num_def Application_save_def
        bind_result_def required_trimmed_def required_min0_def Let_def)
qed

text \<open>A nickname that is only a no-break space is blank to the schema.\<close>

lemma post_applications_blank_nickname:
  "post_applications e (body_ace\<lparr>b_nickname := Some [CHR 0xA0]\<rparr>) s =
     ((400, ErrorMessage ''Error submitting application'' ''nickname''), s)"
  by (simp add: post_applications_def body_ace_def falsy_str_def falsy_num_def
      Application_save_def bind_result_def required_trimmed_def required_min0_def trim_def
      whitespace_def)

lemma post_applications_missing:
  assumes "b_name b = None \<or> b_email b = None \<or> b_phoneNumber b = None \<or>
     b_nickname b = None \<or> b_accountName b = None \<or> b_totalWin b = None"
  shows "post_applications e b s = ((400, Message ''Required fields are missing''), s)"
  using assms by (auto simp: post_applications_def falsy_str_def falsy_num_def)

text \<open>No route stores an application with an empty nickname.\<close>

lemma update_first_status_nicknames:
  "list_all (\<lambda>a. nickname a \<noteq> []) as \<Longrightarrow>
   list_all (\<lambda>a. nickname a \<noteq> []) (update_first P (\<lambda>a. a\<lparr>status := st\<rparr>) as)"
  by (induction as) auto

lemma post_applications_nicknames:
  "nicknames_ok s \<Longrightarrow> nicknames_ok (snd (post_applications e b s))"
  by (auto simp: nicknames_ok_def post_applications_def Application_save_def bind_result_def
      required_trimmed_def required_min0_def Let_def
      split: sum.splits error.splits option.splits if_splits)

lemma patch_application_nicknames:
  "nicknames_ok s \<Longrightarrow> nicknames_ok (snd (patch_application e i st s))"
proof (cases "st \<in> {JStr ''pending'', JStr ''approved'', JStr ''rejected''}")
  case False
  assume "nicknames_ok s"
  with False show ?thesis by (simp add: patch_invalid_status)
next
  case True
  assume ok: "nicknames_ok s"
  from True obtain str where st: "st = JStr str" "str \<in> {''pending'', ''approved'', ''rejected''}"
    by auto
  show ?thesis
  proof (cases "find (\<lambda>a. aid a = i) (applications s)")
    case None
    then show ?thesis using ok by (simp add: patch_not_found)
  next
    case (Some a)
    show ?thesis
      using ok update_first_status_nicknames [of "applications s" "\<lambda>a. aid a = i" str]
      unfolding nicknames_ok_def st(1) applications_after_patch [OF Some st(2)]
      by simp
  qed
qed

lemma handle_keeps_nicknames:
  assumes "nicknames_ok s"
  shows "nicknames_ok (snd (handle e hdr r s))"
proof (cases "valid_bearer e hdr")
  case True
  show ?thesis
    using assms post_applications_nicknames [OF assms] patch_application_nicknames [OF assms]
    by (cases r)
      (auto simp: auth_valid [OF True] nicknames_ok_def get_applications_def post_players_def
        Player_save_def patch_player_def Player_findByIdAndUpdate_def delete_player_def
        Player_findByIdAndDelete_def get_players_def get_players_weekly_def
        get_players_monthly_def get_players_top_def get_players_search_def
        create_sample_players_def samplePlayers_def Let_def
        split: option.splits sum.splits)
next
  case False
  show ?thesis
    using assms post_applications_nicknames [OF assms]
    by (cases r)
      (auto simp: auth_invalid [OF False] nicknames_ok_def get_players_def
        get_players_weekly_def get_players_monthly_def get_players_top_def
        get_players_search_def create_sample_players_def samplePlayers_def Player_save_def
        Let_def split: option.splits)
qed

text \<open>A pattern without metacharacters is searched for as a literal, case aside.\<close>

lemma match_here_literal:
  "\<forall>c\<in>set pat. \<not> metachar c \<Longrightarrow>
   match_here pat s = prefix (map lower pat) (map lower s)"
proof (induction pat s rule: match_here.induct)
  case (1 cs)
  then show ?case by simp
next
  case (2 p ps)
  then show ?case by simp
next
  case (3 p ps c cs)
  then have "p \<noteq> CHR ''.''" by (auto simp: metachar_def)
  with 3 show ?case by (simp add: match_char_def)
qed

lemma match_anywhere_literal:
  "\<forall>c\<in>set pat. \<not> metachar c \<Longrightarrow>
   match_anywhere pat s = sublist (map lower pat) (map lower s)"
proof (induction s)
  case Nil
  then show ?case by (cases pat) simp_all
next
  case (Cons c cs)
  then show ?case
    using match_here_literal [of pat "c # cs"] by (simp add: sublist_Cons_right)
qed

lemma literal_in_fragment: "\<forall>c\<in>set pat. ascii c \<and> \<not> metachar c \<Longrightarrow> in_fragment pat"
  by (simp add: in_fragment_def list_all_iff)

lemma sorted_desc: "sorted_wrt (\<lambda>p p'. totalWin p' \<le> totalWin p) (sort_totalWin_desc ps)"
proof -
  have "sorted (map (\<lambda>p. - totalWin p) (sort_key (\<lambda>p. - totalWin p) ps))"
    by (rule sorted_sort_key)
  then show ?thesis by (simp add: sort_totalWin_desc_def sorted_map)
qed

section \<open>The review of an application\<close>

text \<open>
  Claim C1.  Let an authenticated request approve an application \<open>a\<close> that is in the
  store under id \<open>i\<close>, with a non-empty nickname \<open>N\<close> (no route stores another,
  see \<open>handle_keeps_nicknames\<close>) and claimed amount \<open>W\<close>.  The request answers 200 with the approved application.
  If the store has a player named \<open>N\<close>, the one that \<open>findOne\<close> returns has its total
  \<open>T\<close> replaced by \<open>max T W\<close>, and the player list is left as it was when \<open>W \<le> T\<close>.  If
  there is none, a player is added with name \<open>N\<close>, total \<open>W\<close> and the default avatar
  derived from \<open>N\<close>.  In both cases a player named \<open>N\<close> with a total of at least \<open>W\<close>
  is in the store afterwards.
\<close>

theorem approve_reconciles_player:
  assumes "valid_bearer e hdr"
    and "find (\<lambda>a. aid a = i) (applications s) = Some a"
    and "nickname a \<noteq> []"
  shows "fst (handle e hdr (PatchApplication i (JStr ''approved'')) s) =
           (200, ApplicationDoc (a\<lparr>status := ''approved''\<rparr>)) \<and>
         (let ps' = players (snd (handle e hdr (PatchApplication i (JStr ''approved'')) s)) in
          (case find (\<lambda>p. name p = nickname a) (players s) of
             Some p \<Rightarrow>
               ps' = update_first (\<lambda>p. name p = nickname a)
                       (\<lambda>p. p\<lparr>totalWin := max (totalWin p) (app_totalWin a)\<rparr>) (players s) \<and>
               (app_totalWin a \<le> totalWin p \<longrightarrow> ps' = players s)
           | None \<Rightarrow>
               ps' = players s @
                 [\<lparr>pid = nextId s, name = nickname a, totalWin = app_totalWin a,
                   avatar = default_avatar (nickname a), createdAt = now e\<rparr>]) \<and>
          (\<exists>p \<in> set ps'. name p = nickname a \<and> app_totalWin a \<le> totalWin p))"
proof (cases "find (\<lambda>p. name p = nickname a) (players s)")
  case None
  then show ?thesis
    using assms by (simp add: auth_valid patch_approved_found Let_def)
next
  case (Some p)
  note found = this
  have nm: "p \<in> set (players s)" "name p = nickname a"
    using find_Some_mem [OF found] by simp_all
  show ?thesis
  proof (cases "app_totalWin a > totalWin p")
    case True
    have eq: "update_first (\<lambda>p. name p = nickname a)
                (\<lambda>p. p\<lparr>totalWin := max (totalWin p) (app_totalWin a)\<rparr>) (players s) =
              update_first (\<lambda>p. name p = nickname a)
                (\<lambda>p. p\<lparr>totalWin := app_totalWin a\<rparr>) (players s)"
      using True by (intro update_first_cong_found [OF found]) (simp add: max_def)
    have mem: "p\<lparr>totalWin := app_totalWin a\<rparr> \<in> set (update_first (\<lambda>p. name p = nickname a)
                (\<lambda>p. p\<lparr>totalWin := app_totalWin a\<rparr>) (players s))"
      by (rule update_first_mem [OF found])
    show ?thesis
      using assms found True eq mem nm
      by (auto simp: auth_valid patch_approved_found Let_def intro!: bexI [OF _ mem])
  next
    case False
    have eq: "update_first (\<lambda>p. name p = nickname a)
                (\<lambda>p. p\<lparr>totalWin := max (totalWin p) (app_totalWin a)\<rparr>) (players s) = players s"
      using False by (intro update_first_found_same [OF found]) (simp add: max_def)
    show ?thesis
      using assms found False eq nm
      by (auto simp: auth_valid patch_approved_found Let_def intro!: bexI [of _ p])
  qed
qed

theorem approve_reconciles_player_witness:
  "valid_bearer e0 hdr_good \<and>
   find (\<lambda>a. aid a = 2) (applications s_pending) = Some a_ace \<and>
   nickname a_ace \<noteq> [] \<and>
   fst (handle e0 hdr_good (PatchApplication 2 (JStr ''approved'')) s_pending) =
     (200, ApplicationDoc (a_ace\<lparr>status := ''approved''\<rparr>)) \<and>
   players (snd (handle e0 hdr_good (PatchApplication 2 (JStr ''approved'')) s_pending)) =
     [p_ace\<lparr>totalWin := 1000000\<rparr>]"
proof -
  have h1: "valid_bearer e0 hdr_good" by (rule valid_bearer_good)
  have h2: "find (\<lambda>a. aid a = 2) (applications s_pending) = Some a_ace"
    by (simp add: s_pending_def a_ace_def)
  have h3: "nickname a_ace \<noteq> []" by (simp add: a_ace_def)
  have h4: "find (\<lambda>p. name p = nickname a_ace) (players s_pending) = Some p_ace"
    by (simp add: s_pending_def a_ace_def p_ace_def)
  show ?thesis
    using approve_reconciles_player [OF h1 h2 h3] h1 h2 h3 h4
    by (simp add: Let_def) (simp add: s_pending_def a_ace_def p_ace_def)
qed

text \<open>
  Claim C2, as stated, fails: an application that is already approved is reviewed again
  with \<open>rejected\<close>; the request is answered 200 and the status is overwritten.
\<close>

theorem terminal_status_overwritten:
  "status (a_ace\<lparr>status := ''approved''\<rparr>) = ''approved'' \<and>
   applications s_approved = [a_ace\<lparr>status := ''approved''\<rparr>] \<and>
   handle e0 hdr_good (PatchApplication 2 (JStr ''rejected'')) s_approved =
     ((200, ApplicationDoc (a_ace\<lparr>status := ''rejected''\<rparr>)),
      s_approved\<lparr>applications := [a_ace\<lparr>status := ''rejected''\<rparr>]\<rparr>)"
  by (simp add: auth_valid valid_bearer_good patch_application_def
      Application_findByIdAndUpdate_def s_approved_def a_ace_def)

text \<open>
  Claim C2, amended.  The handler never looks at the current status.  For every
  application in the store, whatever its status, an authenticated review with one of
  \<open>pending\<close>, \<open>approved\<close>, \<open>rejected\<close> writes that status into the application; it
  answers 200 with the updated application (an approval needs the nickname to be
  non-empty for that, as every stored nickname is).
\<close>

theorem review_sets_any_status:
  assumes "valid_bearer e hdr"
    and "find (\<lambda>a. aid a = i) (applications s) = Some a"
    and "st \<in> {''pending'', ''approved'', ''rejected''}"
  shows "find (\<lambda>a. aid a = i)
           (applications (snd (handle e hdr (PatchApplication i (JStr st)) s))) =
         Some (a\<lparr>status := st\<rparr>) \<and>
         (st \<noteq> ''approved'' \<or> nickname a \<noteq> [] \<longrightarrow>
            fst (handle e hdr (PatchApplication i (JStr st)) s) =
              (200, ApplicationDoc (a\<lparr>status := st\<rparr>)))"
proof -
  have idp: "aid (a\<lparr>status := st\<rparr>) = i"
    using find_Some_mem [OF assms(2)] by simp
  have one: "find (\<lambda>a. aid a = i)
           (applications (snd (handle e hdr (PatchApplication i (JStr st)) s))) =
         Some (a\<lparr>status := st\<rparr>)"
    using assms idp by (simp add: auth_valid applications_after_patch find_update_first)
  have two: "fst (handle e hdr (PatchApplication i (JStr st)) s) =
              (200, ApplicationDoc (a\<lparr>status := st\<rparr>))"
    if "st \<noteq> ''approved'' \<or> nickname a \<noteq> []"
  proof (cases "st = ''approved''")
    case True
    then show ?thesis using that assms(1,2)
      by (simp add: auth_valid patch_approved_found Let_def split: option.splits)
  next
    case False
    then show ?thesis using assms by (simp add: auth_valid patch_status_found)
  qed
  show ?thesis using one two by blast
qed

theorem review_sets_any_status_witness:
  "valid_bearer e0 hdr_good \<and>
   find (\<lambda>a. aid a = 2) (applications s_approved) = Some (a_ace\<lparr>status := ''approved''\<rparr>) \<and>
   ''pending'' \<in> {''pending'', ''approved'', ''rejected''} \<and>
   find (\<lambda>a. aid a = 2)
     (applications (snd (handle e0 hdr_good (PatchApplication 2 (JStr ''pending'')) s_approved))) =
     Some a_ace \<and>
   fst (handle e0 hdr_good (PatchApplication 2 (JStr ''pending'')) s_approved) =
     (200, ApplicationDoc a_ace)"
proof -
  have h1: "valid_bearer e0 hdr_good" by (rule valid_bearer_good)
  have h2: "find (\<lambda>a. aid a = 2) (applications s_approved) =
              Some (a_ace\<lparr>status := ''approved''\<rparr>)"
    by (simp add: s_approved_def a_ace_def)
  have h3: "''pending'' \<in> {''pending'', ''approved'', ''rejected''}" by simp
  have h4: "a_ace\<lparr>status := ''approved'', status := ''pending''\<rparr> = a_ace"
    by (simp add: a_ace_def)
  show ?thesis
    using review_sets_any_status [OF h1 h2 h3] h1 h2 h4 by simp
qed

text \<open>
  Claim C3, as stated, fails: the value \<open>pending\<close> is neither \<open>approved\<close> nor
  \<open>rejected\<close>, yet the request is answered 200 and the application is written (an
  approved application goes back to pending).
\<close>

theorem pending_is_accepted:
  "JStr ''pending'' \<noteq> JStr ''approved'' \<and> JStr ''pending'' \<noteq> JStr ''rejected'' \<and>
   handle e0 hdr_good (PatchApplication 2 (JStr ''pending'')) s_approved =
     ((200, ApplicationDoc a_ace), s_approved\<lparr>applications := [a_ace]\<rparr>) \<and>
   s_approved\<lparr>applications := [a_ace]\<rparr> \<noteq> s_approved"
  by (simp add: auth_valid valid_bearer_good patch_application_def
      Application_findByIdAndUpdate_def s_approved_def a_ace_def)

text \<open>
  Claim C3, amended.  For every authenticated review whose status value is none of the
  strings \<open>pending\<close>, \<open>approved\<close>, \<open>rejected\<close> (a missing value, null, a number and a
  boolean included), the answer is 400 \<open>Invalid status\<close> and the store is left as it
  was.
\<close>

theorem invalid_status_rejected:
  assumes "valid_bearer e hdr"
    and "st \<notin> {JStr ''pending'', JStr ''approved'', JStr ''rejected''}"
  shows "handle e hdr (PatchApplication i st) s = ((400, Message ''Invalid status''), s)"
  using assms by (cases st) (auto simp: auth_valid patch_application_def)

theorem invalid_status_rejected_witness:
  "valid_bearer e0 hdr_good \<and>
   JStr ''banned'' \<notin> {JStr ''pending'', JStr ''approved'', JStr ''rejected''} \<and>
   handle e0 hdr_good (PatchApplication 2 (JStr ''banned'')) s_pending =
     ((400, Message ''Invalid status''), s_pending)"
proof -
  have h1: "valid_bearer e0 hdr_good" by (rule valid_bearer_good)
  have h2: "JStr ''banned'' \<notin> {JStr ''pending'', JStr ''approved'', JStr ''rejected''}" by simp
  show ?thesis using invalid_status_rejected [OF h1 h2] h1 h2 by simp
qed

text \<open>
  Claim C4.  After an authenticated approval of an application, a second approval of the
  same application (at any later time, with any header) leaves the whole store as the
  first one left it: the player list is the same, so no total has gone down and no
  second player of the nickname has been created.
\<close>

theorem approve_twice_idempotent:
  assumes "valid_bearer e hdr"
  shows "snd (handle e' hdr' (PatchApplication i (JStr ''approved''))
           (snd (handle e hdr (PatchApplication i (JStr ''approved'')) s))) =
         snd (handle e hdr (PatchApplication i (JStr ''approved'')) s)"
proof (cases "valid_bearer e' hdr'")
  case True
  then show ?thesis using assms by (simp add: auth_valid approve_twice)
next
  case False
  then show ?thesis by (simp add: auth_invalid)
qed

theorem approve_twice_idempotent_witness:
  "valid_bearer e0 hdr_good \<and>
   snd (handle e0 hdr_good (PatchApplication 2 (JStr ''approved'')) s_pending) = s_approved \<and>
   snd (handle e0 hdr_good (PatchApplication 2 (JStr ''approved'')) s_approved) = s_approved"
proof -
  have h1: "valid_bearer e0 hdr_good" by (rule valid_bearer_good)
  have first: "snd (handle e0 hdr_good (PatchApplication 2 (JStr ''approved'')) s_pending) =
      s_approved"
    by (simp add: auth_valid valid_bearer_good patch_application_def
        Application_findByIdAndUpdate_def s_pending_def s_approved_def a_ace_def p_ace_def)
  show ?thesis
    using approve_twice_idempotent [OF h1, of e0 hdr_good 2 s_pending] h1 first by simp
qed

text \<open>
  Claim C5.  A review changes at most one position of the application list, one that
  holds the target id, and at most one player: either the total of one player named
  like the application's nickname is set to the claimed amount, or one player of that
  name is appended.  Everything else stays as it was.  When the status is not
  \<open>approved\<close> (so for \<open>rejected\<close>) the player list is unchanged.
\<close>

theorem review_frame:
  "(applications (snd (handle e hdr (PatchApplication i st) s)) = applications s \<or>
     (\<exists>k a'. k < length (applications s) \<and> aid (applications s ! k) = i \<and>
        applications (snd (handle e hdr (PatchApplication i st) s)) =
          (applications s)[k := a'])) \<and>
   (players (snd (handle e hdr (PatchApplication i st) s)) = players s \<or>
     (\<exists>a. find (\<lambda>a. aid a = i) (applications s) = Some a \<and>
        ((\<exists>k<length (players s). name (players s ! k) = nickname a \<and>
            players (snd (handle e hdr (PatchApplication i st) s)) =
              (players s)[k := (players s ! k)\<lparr>totalWin := app_totalWin a\<rparr>]) \<or>
         (\<exists>p. name p = nickname a \<and>
            players (snd (handle e hdr (PatchApplication i st) s)) = players s @ [p])))) \<and>
   (st \<noteq> JStr ''approved'' \<longrightarrow>
      players (snd (handle e hdr (PatchApplication i st) s)) = players s)"
proof (cases "valid_bearer e hdr")
  case True
  then have "handle e hdr (PatchApplication i st) s = patch_application e i st s"
    by (simp add: auth_valid)
  then show ?thesis using patch_frame [of e i st s] by simp
next
  case False
  then show ?thesis by (simp add: auth_invalid)
qed

theorem review_frame_witness:
  "JStr ''rejected'' \<noteq> JStr ''approved'' \<and>
   players (snd (handle e0 hdr_good (PatchApplication 2 (JStr ''rejected'')) s_pending)) =
     players s_pending"
  using review_frame [of e0 hdr_good 2 "JStr ''rejected''" s_pending] by simp

section \<open>The gate and the routes\<close>

text \<open>
  Claim C6.  Without a valid bearer token (no Authorization header at all, or one the
  access gate refuses), POST /players, PATCH /players/:id, DELETE /players/:id,
  GET /applications and PATCH /applications/:id answer 401 and leave the store as it
  was.  The six public routes need no token: GET /players, /players/weekly,
  /players/monthly and /players/top answer 200 whatever the header; GET /players/search and
  POST /applications answer without one exactly what they answer with any Authorization
  header, never 401, so a request that succeeds with a token succeeds without: the
  search with 200 whenever the query is accepted as a regular expression, the
  submission with 201 whenever the five required strings are not blank and the amount
  is positive.
\<close>

theorem gate_and_public_routes:
  "(\<not> valid_bearer e hdr \<longrightarrow>
      handle e hdr (PostPlayers pb) s = ((401, Message ''Authentication required''), s) \<and>
      handle e hdr (PatchPlayer i w) s = ((401, Message ''Authentication required''), s) \<and>
      handle e hdr (DeletePlayer i) s = ((401, Message ''Authentication required''), s) \<and>
      handle e hdr GetApplications s = ((401, Message ''Authentication required''), s) \<and>
      handle e hdr (PatchApplication i st) s = ((401, Message ''Authentication required''), s)) \<and>
   handle e None (PostPlayers pb) s = ((401, Message ''Authentication required''), s) \<and>
   handle e None (PatchPlayer i w) s = ((401, Message ''Authentication required''), s) \<and>
   handle e None (DeletePlayer i) s = ((401, Message ''Authentication required''), s) \<and>
   handle e None GetApplications s = ((401, Message ''Authentication required''), s) \<and>
   handle e None (PatchApplication i st) s = ((401, Message ''Authentication required''), s) \<and>
   handle e hdr GetPlayers s = ((200, PlayerList (sort_totalWin_desc (players s))), s) \<and>
   fst (fst (handle e hdr GetPlayersWeekly s)) = 200 \<and>
   fst (fst (handle e hdr GetPlayersMonthly s)) = 200 \<and>
   fst (fst (handle e hdr (GetPlayersTop q) s)) = 200 \<and>
   handle e hdr (GetPlayersSearch query) s = handle e None (GetPlayersSearch query) s \<and>
   fst (fst (handle e None (GetPlayersSearch query) s)) \<noteq> 401 \<and>
   (regex_i e query \<noteq> None \<longrightarrow> fst (fst (handle e None (GetPlayersSearch query) s)) = 200) \<and>
   handle e hdr (PostApplications b) s = handle e None (PostApplications b) s \<and>
   fst (fst (handle e None (PostApplications b) s)) \<noteq> 401 \<and>
   (b_name b = Some n \<and> trim n \<noteq> [] \<and> b_email b = Some m \<and> trim m \<noteq> [] \<and>
    b_phoneNumber b = Some ph \<and> trim ph \<noteq> [] \<and> b_nickname b = Some nk \<and> trim nk \<noteq> [] \<and>
    b_accountName b = Some ac \<and> trim ac \<noteq> [] \<and> b_totalWin b = Some amount \<and> 0 < amount \<longrightarrow>
      fst (fst (handle e None (PostApplications b) s)) = 201)"
proof -
  have gate: "handle e hdr (PostPlayers pb) s = ((401, Message ''Authentication required''), s) \<and>
      handle e hdr (PatchPlayer i w) s = ((401, Message ''Authentication required''), s) \<and>
      handle e hdr (DeletePlayer i) s = ((401, Message ''Authentication required''), s) \<and>
      handle e hdr GetApplications s = ((401, Message ''Authentication required''), s) \<and>
      handle e hdr (PatchApplication i st) s = ((401, Message ''Authentication required''), s)"
    if "\<not> valid_bearer e hdr"
    using that by (simp add: auth_invalid)
  have none: "\<not> valid_bearer e None" by (simp add: valid_bearer_def bearer_token_def)
  have nohdr: "handle e None (PostPlayers pb) s = ((401, Message ''Authentication required''), s)"
    "handle e None (PatchPlayer i w) s = ((401, Message ''Authentication required''), s)"
    "handle e None (DeletePlayer i) s = ((401, Message ''Authentication required''), s)"
    "handle e None GetApplications s = ((401, Message ''Authentication required''), s)"
    "handle e None (PatchApplication i st) s = ((401, Message ''Authentication required''), s)"
    by (simp_all add: auth_invalid [OF none])
  have reads: "handle e hdr GetPlayers s = ((200, PlayerList (sort_totalWin_desc (players s))), s)"
    "fst (fst (handle e hdr GetPlayersWeekly s)) = 200"
    "fst (fst (handle e hdr GetPlayersMonthly s)) = 200"
    "fst (fst (handle e hdr (GetPlayersTop q) s)) = 200"
    by (simp_all add: get_players_def get_players_weekly_def get_players_monthly_def
        get_players_top_def Let_def)
  have search: "fst (fst (handle e None (GetPlayersSearch query) s)) \<noteq> 401"
    "regex_i e query \<noteq> None \<longrightarrow> fst (fst (handle e None (GetPlayersSearch query) s)) = 200"
    by (auto simp: get_players_search_def split: option.splits)
  have submit: "fst (fst (handle e None (PostApplications b) s)) \<noteq> 401"
    by (auto simp: post_applications_def split: sum.splits error.splits prod.splits)
  have ok: "fst (fst (handle e None (PostApplications b) s)) = 201"
    if "b_name b = Some n \<and> trim n \<noteq> [] \<and> b_email b = Some m \<and> trim m \<noteq> [] \<and>
    b_phoneNumber b = Some ph \<and> trim ph \<noteq> [] \<and> b_nickname b = Some nk \<and> trim nk \<noteq> [] \<and>
    b_accountName b = Some ac \<and> trim ac \<noteq> [] \<and> b_totalWin b = Some amount \<and> 0 < amount"
    using that post_applications_complete [of b n m ph nk ac amount e s] by simp
  show ?thesis
    using gate nohdr reads search submit ok by simp
qed

theorem gate_and_public_routes_witness:
  "\<not> valid_bearer e0 None \<and>
   handle e0 None GetApplications s_pending =
     ((401, Message ''Authentication required''), s_pending) \<and>
   handle e0 None (PatchApplication 2 (JStr ''approved'')) s_pending =
     ((401, Message ''Authentication required''), s_pending) \<and>
   handle e0 None GetPlayers s_pending = ((200, PlayerList [p_ace]), s_pending) \<and>
   regex_i e0 ''ace'' \<noteq> None \<and>
   fst (fst (handle e0 None (GetPlayersSearch ''ace'') s_pending)) = 200 \<and>
   b_nickname body_ace = Some '' AceA '' \<and> trim '' AceA '' \<noteq> [] \<and>
   b_totalWin body_ace = Some 1000000 \<and>
   fst (fst (handle e0 None (PostApplications body_ace) s_pending)) = 201"
proof -
  have h1: "\<not> valid_bearer e0 None" by (simp add: valid_bearer_def bearer_token_def)
  have h2: "regex_i e0 ''ace'' \<noteq> None"
    by (simp add: regex_i_def in_fragment_def metachar_def ascii_def)
  have h3: "b_name body_ace = Some ''Alice''" "b_email body_ace = Some ''a@x.com''"
    "b_phoneNumber body_ace = Some ''555''" "b_nickname body_ace = Some '' AceA ''"
    "b_accountName body_ace = Some ''acc1''" "b_totalWin body_ace = Some 1000000"
    by (simp_all add: body_ace_def)
  have h4: "trim ''Alice'' \<noteq> []" "trim ''a@x.com'' \<noteq> []" "trim ''555'' \<noteq> []"
    "trim '' AceA '' \<noteq> []" "trim ''acc1'' \<noteq> []"
    by (simp_all add: trim_def whitespace_def)
  show ?thesis
    using gate_and_public_routes [where e = e0 and hdr = None and s = s_pending and i = 2
        and st = "JStr ''approved''" and query = "''ace''" and b = body_ace
        and n = "''Alice''" and m = "''a@x.com''" and ph = "''555''" and nk = "'' AceA ''"
        and ac = "''acc1''" and amount = 1000000]
      h1 h2 h3 h4
    by (simp add: s_pending_def sort_totalWin_desc_def)
qed

text \<open>
  Claim C7.  For every store, POST /api/test/create-sample-players with no Authorization
  header answers 201; afterwards the player collection holds the five sample players
  and nothing else, whatever it held before.
\<close>

theorem sample_players_replace_all:
  "handle e None CreateSamplePlayers s =
     ((201, Message ''Sample players created''),
      s\<lparr>players :=
          [\<lparr>pid = nextId s, name = ''Champion123'', totalWin = 50000000,
            avatar = default_avatar ''Champion123'', createdAt = now e\<rparr>,
           \<lparr>pid = nextId s + 1, name = ''LuckyWinner'', totalWin = 35000000,
            avatar = default_avatar ''LuckyWinner'', createdAt = now e\<rparr>,
           \<lparr>pid = nextId s + 2, name = ''GoldHunter'', totalWin = 25000000,
            avatar = default_avatar ''GoldHunter'', createdAt = now e\<rparr>,
           \<lparr>pid = nextId s + 3, name = ''FortuneMaster'', totalWin = 20000000,
            avatar = default_avatar ''FortuneMaster'', createdAt = now e\<rparr>,
           \<lparr>pid = nextId s + 4, name = ''LuckyDragon'', totalWin = 15000000,
            avatar = default_avatar ''LuckyDragon'', createdAt = now e\<rparr>],
         nextId := nextId s + 5\<rparr>)"
  by (simp add: create_sample_players_def samplePlayers_def Player_save_def default_avatar_def
      Let_def)

section \<open>Submitting an application\<close>

text \<open>
  Claim C8.  A complete submission whose claimed amount is 0 is answered 400 with
  \<open>Required fields are missing\<close> and nothing is stored, although the schema would save
  that very document: it accepts an amount of 0 (\<open>min: 0\<close>).
\<close>

theorem zero_win_rejected_as_missing:
  "handle e hdr (PostApplications body_zero) s =
     ((400, Message ''Required fields are missing''), s) \<and>
   Application_save (now e) body_zero (or_empty (b_proofUrl body_zero)) s =
     Inr (\<lparr>aid = nextId s, app_name = ''Alice'', email = ''a@x.com'', phoneNumber = ''555'',
           nickname = ''AceA'', accountName = ''acc1'', app_totalWin = 0, proofUrl = [],
           status = ''pending'', app_createdAt = now e\<rparr>,
          s\<lparr>applications := applications s @
             [\<lparr>aid = nextId s, app_name = ''Alice'', email = ''a@x.com'', phoneNumber = ''555'',
               nickname = ''AceA'', accountName = ''acc1'', app_totalWin = 0, proofUrl = [],
               status = ''pending'', app_createdAt = now e\<rparr>],
            nextId := Suc (nextId s)\<rparr>)"
  by (simp add: post_applications_def body_zero_def falsy_str_def falsy_num_def
      Application_save_def bind_result_def required_trimmed_def required_min0_def trim_def
      whitespace_def or_empty_def Let_def)

section \<open>Creating and updating players\<close>

text \<open>
  Claim C10.  For an authenticated request, POST /players stores the supplied total
  as it is (the name being non-empty), and PATCH /players/:id writes the supplied total
  into the player found; a negative total is stored like any other, after which the
  store no longer satisfies the data model's constraint.
\<close>

theorem player_total_unvalidated:
  assumes "valid_bearer e hdr"
  shows "(n \<noteq> [] \<longrightarrow>
          handle e hdr (PostPlayers \<lparr>pb_name = Some n, pb_totalWin = Some w\<rparr>) s =
            ((201, PlayerDoc \<lparr>pid = nextId s, name = n, totalWin = w,
                              avatar = default_avatar n, createdAt = now e\<rparr>),
             s\<lparr>players := players s @
                  [\<lparr>pid = nextId s, name = n, totalWin = w,
                    avatar = default_avatar n, createdAt = now e\<rparr>],
               nextId := Suc (nextId s)\<rparr>) \<and>
          (w < 0 \<longrightarrow> \<not> nonneg_totals
             (snd (handle e hdr (PostPlayers \<lparr>pb_name = Some n, pb_totalWin = Some w\<rparr>) s)))) \<and>
         (find (\<lambda>p. pid p = i) (players s) = Some p \<longrightarrow>
          handle e hdr (PatchPlayer i w) s =
            ((200, PlayerDoc (p\<lparr>totalWin := w\<rparr>)),
             s\<lparr>players := update_first (\<lambda>p. pid p = i) (\<lambda>p. p\<lparr>totalWin := w\<rparr>) (players s)\<rparr>) \<and>
          (w < 0 \<longrightarrow> \<not> nonneg_totals (snd (handle e hdr (PatchPlayer i w) s))))"
proof -
  have post: "handle e hdr (PostPlayers \<lparr>pb_name = Some n, pb_totalWin = Some w\<rparr>) s =
            ((201, PlayerDoc \<lparr>pid = nextId s, name = n, totalWin = w,
                              avatar = default_avatar n, createdAt = now e\<rparr>),
             s\<lparr>players := players s @
                  [\<lparr>pid = nextId s, name = n, totalWin = w,
                    avatar = default_avatar n, createdAt = now e\<rparr>],
               nextId := Suc (nextId s)\<rparr>)" if "n \<noteq> []"
    using that assms by (simp add: auth_valid post_players_def Player_save_def Let_def)
  have patch: "handle e hdr (PatchPlayer i w) s =
            ((200, PlayerDoc (p\<lparr>totalWin := w\<rparr>)),
             s\<lparr>players := update_first (\<lambda>p. pid p = i) (\<lambda>p. p\<lparr>totalWin := w\<rparr>) (players s)\<rparr>)"
    if "find (\<lambda>p. pid p = i) (players s) = Some p"
    using that assms by (simp add: auth_valid patch_player_def Player_findByIdAndUpdate_def)
  have neg: "\<not> list_all (\<lambda>p. 0 \<le> totalWin p)
      (update_first (\<lambda>p. pid p = i) (\<lambda>p. p\<lparr>totalWin := w\<rparr>) (players s))"
    if "find (\<lambda>p. pid p = i) (players s) = Some p" "w < 0"
    using update_first_mem [OF that(1), of "\<lambda>p. p\<lparr>totalWin := w\<rparr>"] that(2)
    by (auto simp: list_all_iff intro!: bexI [of _ "p\<lparr>totalWin := w\<rparr>"])
  show ?thesis
    using post patch neg by (auto simp: nonneg_totals_def)
qed


theorem player_total_unvalidated_witness:
  "valid_bearer e0 hdr_good \<and> ''Cheat'' \<noteq> [] \<and> (-5::int) < 0 \<and>
   find (\<lambda>p. pid p = 1) (players s_pending) = Some p_ace \<and>
   players (snd (handle e0 hdr_good (PostPlayers \<lparr>pb_name = Some ''Cheat'', pb_totalWin = Some (-5)\<rparr>)
      s_pending)) =
     [p_ace, \<lparr>pid = 3, name = ''Cheat'', totalWin = -5, avatar = default_avatar ''Cheat'',
               createdAt = 100\<rparr>] \<and>
   \<not> nonneg_totals (snd (handle e0 hdr_good
      (PostPlayers \<lparr>pb_name = Some ''Cheat'', pb_totalWin = Some (-5)\<rparr>) s_pending)) \<and>
   players (snd (handle e0 hdr_good (PatchPlayer 1 (-5)) s_pending)) = [p_ace\<lparr>totalWin := -5\<rparr>] \<and>
   \<not> nonneg_totals (snd (handle e0 hdr_good (PatchPlayer 1 (-5)) s_pending))"
proof -
  have h1: "valid_bearer e0 hdr_good" by (rule valid_bearer_good)
  have h2: "find (\<lambda>p. pid p = 1) (players s_pending) = Some p_ace"
    by (simp add: s_pending_def p_ace_def)
  have ps: "players s_pending = [p_ace]" "nextId s_pending = 3" "now e0 = 100" "pid p_ace = 1"
    by (simp_all add: s_pending_def e0_def p_ace_def)
  show ?thesis
    using player_total_unvalidated [OF h1, of "''Cheat''" "-5" s_pending 1 p_ace] h1 h2 ps
    by (simp add: nonneg_totals_def)
qed

section \<open>Searching players\<close>

text \<open>
  Claim C9.  The query is not taken as a literal: with the query \<open>.\<close> the search
  returns the player named \<open>abc\<close>, whose name does not contain a dot.
\<close>

theorem search_dot_is_wildcard:
  "handle e0 None (GetPlayersSearch ''.'') s_abc = ((200, PlayerList [p_abc]), s_abc) \<and>
   name p_abc = ''abc'' \<and> \<not> contains_ci ''.'' ''abc''"
  by (simp add: get_players_search_def regex_i_def in_fragment_def metachar_def ascii_def
      match_char_def s_abc_def p_abc_def sort_totalWin_desc_def contains_ci_def
      sublist_Cons_right lower_def)

text \<open>
  For an ASCII query without any metacharacter the search is the literal one: it returns the
  players whose name contains the query, letters compared without their case, by
  descending total.
\<close>

lemma search_literal_query:
  assumes "\<forall>c\<in>set q. ascii c \<and> \<not> metachar c"
  shows "handle e hdr (GetPlayersSearch q) s =
           ((200, PlayerList (sort_totalWin_desc
               (filter (\<lambda>p. contains_ci q (name p)) (players s)))), s) \<and>
         set (sort_totalWin_desc (filter (\<lambda>p. contains_ci q (name p)) (players s))) =
           {p \<in> set (players s). contains_ci q (name p)} \<and>
         sorted_wrt (\<lambda>p p'. totalWin p' \<le> totalWin p)
           (sort_totalWin_desc (filter (\<lambda>p. contains_ci q (name p)) (players s)))"
proof -
  have lit: "\<forall>c\<in>set q. \<not> metachar c" using assms by simp
  have m: "match_anywhere q = contains_ci q"
    using match_anywhere_literal [OF lit] by (auto simp: contains_ci_def)
  have "regex_i e q = Some (contains_ci q)"
    using literal_in_fragment [OF assms] m by (simp add: regex_i_def)
  then have one: "handle e hdr (GetPlayersSearch q) s =
           ((200, PlayerList (sort_totalWin_desc
               (filter (\<lambda>p. contains_ci q (name p)) (players s)))), s)"
    by (simp add: get_players_search_def)
  have two: "set (sort_totalWin_desc (filter (\<lambda>p. contains_ci q (name p)) (players s))) =
           {p \<in> set (players s). contains_ci q (name p)}"
    by (auto simp: sort_totalWin_desc_def)
  show ?thesis using one two sorted_desc by blast
qed

lemma search_literal_query_witness:
  "(\<forall>c\<in>set ''AC''. ascii c \<and> \<not> metachar c) \<and>
   handle e0 None (GetPlayersSearch ''AC'') s_pending = ((200, PlayerList [p_ace]), s_pending)"
proof -
  have h: "\<forall>c\<in>set ''AC''. ascii c \<and> \<not> metachar c" by (simp add: metachar_def ascii_def)
  have c: "contains_ci ''AC'' ''AceA''"
    by (simp add: contains_ci_def sublist_Cons_right lower_def)
  show ?thesis
    using search_literal_query [OF h, of e0 None s_pending] h c
    by (simp add: s_pending_def p_ace_def sort_totalWin_desc_def)
qed

end
